theory Spec2Isabelle
  imports Complex_Main
begin

section \<open>Python floats\<close>

text \<open>
  A Python \<^verbatim>\<open>float\<close> is modelled by its IEEE-754 class: a finite value (an exact
  real: rounding and overflow are not modelled), the two infinities, or NaN. An
  \<^verbatim>\<open>Optional[float]\<close> is an \<open>fl option\<close>. The operations follow IEEE-754 on
  the special values; every comparison with NaN is false.
\<close>

datatype fl = Fin real | PInf | NInf | NaN

fun fl_neg :: "fl \<Rightarrow> fl" where
  "fl_neg (Fin x) = Fin (- x)"
| "fl_neg PInf = NInf"
| "fl_neg NInf = PInf"
| "fl_neg NaN = NaN"

fun fl_add :: "fl \<Rightarrow> fl \<Rightarrow> fl" where
  "fl_add NaN _ = NaN"
| "fl_add _ NaN = NaN"
| "fl_add (Fin x) (Fin y) = Fin (x + y)"
| "fl_add PInf NInf = NaN"
| "fl_add NInf PInf = NaN"
| "fl_add PInf _ = PInf"
| "fl_add NInf _ = NInf"
| "fl_add (Fin x) y = y"

definition fl_sub :: "fl \<Rightarrow> fl \<Rightarrow> fl" where
  "fl_sub a b = fl_add a (fl_neg b)"

fun fl_sgn_inf :: "real \<Rightarrow> fl \<Rightarrow> fl" where
  "fl_sgn_inf x i = (if x = 0 then NaN else if 0 < x then i else fl_neg i)"

fun fl_mul :: "fl \<Rightarrow> fl \<Rightarrow> fl" where
  "fl_mul NaN _ = NaN"
| "fl_mul _ NaN = NaN"
| "fl_mul (Fin x) (Fin y) = Fin (x * y)"
| "fl_mul (Fin x) PInf = fl_sgn_inf x PInf"
| "fl_mul (Fin x) NInf = fl_sgn_inf x NInf"
| "fl_mul PInf (Fin y) = fl_sgn_inf y PInf"
| "fl_mul NInf (Fin y) = fl_sgn_inf y NInf"
| "fl_mul PInf PInf = PInf"
| "fl_mul NInf NInf = PInf"
| "fl_mul PInf NInf = NInf"
| "fl_mul NInf PInf = NInf"

fun fl_abs :: "fl \<Rightarrow> fl" where
  "fl_abs (Fin x) = Fin \<bar>x\<bar>"
| "fl_abs PInf = PInf"
| "fl_abs NInf = PInf"
| "fl_abs NaN = NaN"

fun fl_le :: "fl \<Rightarrow> fl \<Rightarrow> bool" where
  "fl_le NaN _ = False"
| "fl_le _ NaN = False"
| "fl_le (Fin x) (Fin y) = (x \<le> y)"
| "fl_le NInf _ = True"
| "fl_le _ PInf = True"
| "fl_le PInf _ = False"
| "fl_le (Fin x) NInf = False"

fun fl_lt :: "fl \<Rightarrow> fl \<Rightarrow> bool" where
  "fl_lt NaN _ = False"
| "fl_lt _ NaN = False"
| "fl_lt (Fin x) (Fin y) = (x < y)"
| "fl_lt PInf _ = False"
| "fl_lt _ NInf = False"
| "fl_lt NInf _ = True"
| "fl_lt (Fin x) PInf = True"

definition fl_ge :: "fl \<Rightarrow> fl \<Rightarrow> bool" where
  "fl_ge a b = fl_le b a"

fun isfinite :: "fl \<Rightarrow> bool" where
  "isfinite (Fin x) = True"
| "isfinite _ = False"

section \<open>Scoring primitives (scoring/scorer.py)\<close>

datatype band = Green | Amber | Red

text \<open>
  \<^verbatim>\<open>score_band(measured, target)\<close>: \<open>measured\<close> may be \<^verbatim>\<open>None\<close> or any float;
  the target is a finite angle in degrees.
\<close>

definition score_band :: "fl option \<Rightarrow> real \<Rightarrow> real \<times> band" where
  "score_band measured target =
     (case measured of
        None \<Rightarrow> (0, Red)
      | Some m \<Rightarrow>
          if \<not> isfinite m then (0, Red)
          else let d = fl_abs (fl_sub m (Fin target)) in
            if fl_le d (Fin 5) then (1, Green)
            else if fl_le d (Fin 10) then (1 / 2, Amber)
            else (0, Red))"

section \<open>Repetition cycle detector (analysis/rep_detector.py)\<close>

record CycleParams =
  baseline_band :: real
  up_thresh :: real
  down_thresh :: real
  min_duration :: real
  max_duration :: real
  peak_hold :: real

definition default_params :: CycleParams where
  "default_params = \<lparr> baseline_band = 6, up_thresh = 25, down_thresh = 12,
     min_duration = 4 / 10, max_duration = 6, peak_hold = 8 / 100 \<rparr>"

datatype cycle_state = INIT | AT_BASELINE | GOING_UP | ABOVE | GOING_DOWN

record RepCycleDetector =
  p :: CycleParams
  state :: cycle_state
  baseline :: "fl option"
  last_t :: "real option"
  t_cycle_start :: "real option"
  t_above_start :: "real option"

text \<open>The emitted dictionary \<^verbatim>\<open>{"t0": ..., "t1": ...}\<close>.\<close>

record event =
  ev_t0 :: real
  ev_t1 :: real

definition reset :: "CycleParams \<Rightarrow> RepCycleDetector" where
  "reset params = \<lparr> p = params, state = INIT, baseline = None, last_t = None,
     t_cycle_start = None, t_above_start = None \<rparr>"

definition is_near_baseline :: "RepCycleDetector \<Rightarrow> fl \<Rightarrow> bool" where
  "is_near_baseline d a =
     (case baseline d of
        None \<Rightarrow> False
      | Some b \<Rightarrow> fl_le (fl_abs (fl_sub a b)) (Fin (baseline_band (p d))))"

definition ensure_baseline :: "RepCycleDetector \<Rightarrow> fl \<Rightarrow> RepCycleDetector" where
  "ensure_baseline d a =
     (case baseline d of
        None \<Rightarrow> d\<lparr>baseline := Some a\<rparr>
      | Some b \<Rightarrow>
          d\<lparr>baseline := Some (fl_add (fl_mul (Fin (98 / 100)) b) (fl_mul (Fin (2 / 100)) a))\<rparr>)"

text \<open>
  The excursion \<^verbatim>\<open>a - self.baseline\<close>. \<^verbatim>\<open>update\<close> seeds the baseline before it
  reads it, so the \<open>None\<close> branch is never reached from \<open>update\<close>.
\<close>

definition excursion :: "RepCycleDetector \<Rightarrow> fl \<Rightarrow> fl" where
  "excursion d a = (case baseline d of None \<Rightarrow> NaN | Some b \<Rightarrow> fl_sub a b)"

text \<open>
  The \<^verbatim>\<open>if/elif\<close> chain over the states other than INIT. It returns the new
  detector and the event of the one early \<^verbatim>\<open>return\<close> (in GOING_DOWN).
\<close>

definition transition :: "real \<Rightarrow> fl \<Rightarrow> RepCycleDetector \<Rightarrow> RepCycleDetector \<times> event option" where
  "transition t a d =
     (case state d of
        AT_BASELINE \<Rightarrow>
          (let d1 = ensure_baseline d a in
           if fl_ge (excursion d1 a) (Fin (up_thresh (p d1)))
           then (d1\<lparr>state := GOING_UP, t_cycle_start := Some t, t_above_start := None\<rparr>, None)
           else (d1, None))
      | GOING_UP \<Rightarrow>
          (if fl_ge (excursion d a) (Fin (up_thresh (p d)))
           then (case t_above_start d of
                   None \<Rightarrow> (d\<lparr>t_above_start := Some t\<rparr>, None)
                 | Some ta \<Rightarrow>
                     if t - ta \<ge> peak_hold (p d) then (d\<lparr>state := ABOVE\<rparr>, None)
                     else (d, None))
           else if is_near_baseline d a
                then (d\<lparr>state := AT_BASELINE, t_cycle_start := None, t_above_start := None\<rparr>, None)
                else (d, None))
      | ABOVE \<Rightarrow>
          (if fl_lt (excursion d a) (Fin (up_thresh (p d) * (1 / 2)))
           then (d\<lparr>state := GOING_DOWN\<rparr>, None)
           else (d, None))
      | GOING_DOWN \<Rightarrow>
          (if is_near_baseline d a
           then (case t_cycle_start d of
                   Some ts \<Rightarrow>
                     (let dur = t - ts;
                          d1 = d\<lparr>state := AT_BASELINE, t_above_start := None, t_cycle_start := None\<rparr>
                      in if min_duration (p d) \<le> dur \<and> dur \<le> max_duration (p d)
                         then (d1, Some \<lparr>ev_t0 = t - dur, ev_t1 = t\<rparr>)
                         else (d1, None))
                 | None \<Rightarrow> (d\<lparr>state := AT_BASELINE\<rparr>, None))
           else (d, None))
      | INIT \<Rightarrow> (d, None))"

definition safety_timeout :: "real \<Rightarrow> RepCycleDetector \<Rightarrow> RepCycleDetector" where
  "safety_timeout t d =
     (case t_cycle_start d of
        Some ts \<Rightarrow>
          if t - ts > max_duration (p d)
          then d\<lparr>state := AT_BASELINE, t_cycle_start := None, t_above_start := None\<rparr>
          else d
      | None \<Rightarrow> d)"

definition update :: "real \<Rightarrow> fl option \<Rightarrow> RepCycleDetector \<Rightarrow> RepCycleDetector \<times> event option" where
  "update t a d =
     (case a of
        None \<Rightarrow> (d\<lparr>last_t := Some t\<rparr>, None)
      | Some v \<Rightarrow>
          if v = NaN then (d\<lparr>last_t := Some t\<rparr>, None)
          else
            let d1 = (if baseline d = None then d\<lparr>baseline := Some v\<rparr> else d) in
            if state d1 = INIT
            then (let d2 = (if is_near_baseline d1 v
                            then (ensure_baseline d1 v)\<lparr>state := AT_BASELINE\<rparr>
                            else d1)
                  in (d2\<lparr>last_t := Some t\<rparr>, None))
            else (case transition t v d1 of
                    (d2, Some ev) \<Rightarrow> (d2, Some ev)
                  | (d2, None) \<Rightarrow> ((safety_timeout t d2)\<lparr>last_t := Some t\<rparr>, None)))"

text \<open>Feeding a sequence of samples; the events are collected in order.\<close>

fun run :: "RepCycleDetector \<Rightarrow> (real \<times> fl option) list \<Rightarrow> RepCycleDetector \<times> event list" where
  "run d [] = (d, [])"
| "run d ((t, a) # xs) =
     (case update t a d of (d', ev) \<Rightarrow>
        (case run d' xs of (d'', evs) \<Rightarrow>
           (d'', (case ev of None \<Rightarrow> evs | Some e \<Rightarrow> e # evs))))"





section \<open>Gait tracker (gait/metrics.py)\<close>

text \<open>
  The four histories are \<^verbatim>\<open>collections.deque(maxlen=max_hist)\<close>: appending to a full
  deque drops its oldest element. Timestamps are finite; an ankle reading is
  \<^verbatim>\<open>None\<close> or a float and is stored as a float (\<^verbatim>\<open>None\<close> as NaN). An event is
  the pair \<^verbatim>\<open>(t_mid, float(b))\<close>.
\<close>

definition deque_append :: "nat \<Rightarrow> 'a list \<Rightarrow> 'a \<Rightarrow> 'a list" where
  "deque_append maxlen xs v = (let ys = xs @ [v] in drop (length ys - maxlen) ys)"

record GaitTracker =
  max_hist :: nat
  hist_t :: "real list"
  hist_ankleL_y :: "fl list"
  hist_ankleR_y :: "fl list"
  hist_hip_width_px :: "fl list"
  events_L :: "(real \<times> fl) list"
  events_R :: "(real \<times> fl) list"
  cadence_spm :: real
  step_time_L :: "real option"
  step_time_R :: "real option"
  si :: "real option"
  min_event_separation_s :: real

definition GaitTracker_init :: "nat \<Rightarrow> real \<Rightarrow> GaitTracker" where
  "GaitTracker_init mh sep = \<lparr> max_hist = mh, hist_t = [], hist_ankleL_y = [],
     hist_ankleR_y = [], hist_hip_width_px = [], events_L = [], events_R = [],
     cadence_spm = 0, step_time_L = None, step_time_R = None, si = None,
     min_event_separation_s = sep \<rparr>"

definition or_nan :: "fl option \<Rightarrow> fl" where
  "or_nan v = (case v of None \<Rightarrow> NaN | Some a \<Rightarrow> a)"

text \<open>
  The body of the loop of \<^verbatim>\<open>_detect_events\<close> for one side: \<open>ts\<close> is the time
  deque, \<open>ys\<close> the side's ankle deque, \<open>ev\<close> the side's event list. The deques
  are appended together, so \<open>ts\<close> is as long as \<open>ys\<close>.
\<close>

definition detect_side :: "real \<Rightarrow> real list \<Rightarrow> fl list \<Rightarrow> (real \<times> fl) list \<Rightarrow> (real \<times> fl) list" where
  "detect_side sep ts ys ev =
     (if length ys \<ge> 3 then
        (let a = ys ! (length ys - 3); b = ys ! (length ys - 2); c = ys ! (length ys - 1) in
         if (isfinite a \<and> isfinite b \<and> isfinite c) \<and> fl_lt b a \<and> fl_lt b c then
           (let t_mid = ts ! (length ts - 2) in
            if ev = [] \<or> t_mid - fst (last ev) \<ge> sep then ev @ [(t_mid, b)] else ev)
         else ev)
      else ev)"

definition detect_events :: "GaitTracker \<Rightarrow> GaitTracker" where
  "detect_events tr =
     (let tr1 = tr\<lparr>events_L := detect_side (min_event_separation_s tr) (hist_t tr)
                                   (hist_ankleL_y tr) (events_L tr)\<rparr>
      in tr1\<lparr>events_R := detect_side (min_event_separation_s tr1) (hist_t tr1)
                              (hist_ankleR_y tr1) (events_R tr1)\<rparr>)"

definition step_time :: "(real \<times> fl) list \<Rightarrow> real option" where
  "step_time ev =
     (if length ev \<ge> 2 then Some (fst (ev ! (length ev - 1)) - fst (ev ! (length ev - 2)))
      else None)"

definition np_mean :: "real list \<Rightarrow> real" where
  "np_mean xs = sum_list xs / real (length xs)"

definition recompute_metrics :: "GaitTracker \<Rightarrow> GaitTracker" where
  "recompute_metrics tr =
     (let stL = step_time (events_L tr);
          stR = step_time (events_R tr);
          sts = concat (map (\<lambda>s. case s of None \<Rightarrow> [] | Some v \<Rightarrow> if v > 0 then [v] else [])
                         [stL, stR]);
          cad = (if sts \<noteq> [] then 60 / np_mean sts else 0);
          sym = (case (stL, stR) of
                   (Some l, Some r) \<Rightarrow>
                     if l \<noteq> 0 \<and> r \<noteq> 0 \<and> l > 0 \<and> r > 0
                     then Some (100 * \<bar>l - r\<bar> / (5 / 10 * (l + r) + 1 / 1000000))
                     else None
                 | _ \<Rightarrow> None)
      in tr\<lparr>step_time_L := stL, step_time_R := stR, cadence_spm := cad, si := sym\<rparr>)"

definition gait_update :: "real \<Rightarrow> fl option \<Rightarrow> fl option \<Rightarrow> fl option \<Rightarrow> GaitTracker \<Rightarrow> GaitTracker" where
  "gait_update t ankleL_y ankleR_y hip_width_px tr =
     recompute_metrics (detect_events
       (tr\<lparr>hist_t := deque_append (max_hist tr) (hist_t tr) t,
           hist_ankleL_y := deque_append (max_hist tr) (hist_ankleL_y tr) (or_nan ankleL_y),
           hist_ankleR_y := deque_append (max_hist tr) (hist_ankleR_y tr) (or_nan ankleR_y),
           hist_hip_width_px := deque_append (max_hist tr) (hist_hip_width_px tr) (or_nan hip_width_px)\<rparr>))"

record gait_metrics =
  m_cadence_spm :: real
  m_step_time_L :: "real option"
  m_step_time_R :: "real option"
  m_symmetry_index :: "real option"

definition metrics :: "GaitTracker \<Rightarrow> gait_metrics" where
  "metrics tr = \<lparr> m_cadence_spm = cadence_spm tr, m_step_time_L = step_time_L tr,
     m_step_time_R = step_time_R tr, m_symmetry_index = si tr \<rparr>"

text \<open>A sequence of \<^verbatim>\<open>update(t, ankleL_y, ankleR_y, hip_width_px)\<close> calls.\<close>

fun gait_run :: "GaitTracker \<Rightarrow> (real \<times> fl option \<times> fl option \<times> fl option) list \<Rightarrow> GaitTracker" where
  "gait_run tr [] = tr"
| "gait_run tr ((t, l, r, h) # xs) = gait_run (gait_update t l r h tr) xs"


text \<open>
  For the invariant of the tracker: the last two events of a side are at least the
  refractory window apart, and the stored metrics are those of the stored events.
\<close>

definition sep_ok :: "real \<Rightarrow> (real \<times> fl) list \<Rightarrow> bool" where
  "sep_ok sep ev = (\<forall>s. step_time ev = Some s \<longrightarrow> sep \<le> s)"

definition gait_inv :: "real \<Rightarrow> GaitTracker \<Rightarrow> bool" where
  "gait_inv sep tr = (min_event_separation_s tr = sep \<and> sep_ok sep (events_L tr)
      \<and> sep_ok sep (events_R tr) \<and> recompute_metrics tr = tr)"

text \<open>A test walk: both ankles alternate, one local minimum per second on each side.\<close>

definition walk :: "(real \<times> fl option \<times> fl option \<times> fl option) list" where
  "walk = [(0, Some (Fin 3), Some (Fin 2), None), (1 / 2, Some (Fin 2), Some (Fin 3), None),
           (1, Some (Fin 3), Some (Fin 2), None), (3 / 2, Some (Fin 2), Some (Fin 3), None),
           (2, Some (Fin 3), Some (Fin 2), None), (5 / 2, Some (Fin 2), Some (Fin 3), None),
           (3, Some (Fin 3), Some (Fin 2), None)]"


section \<open>Activity rule engine (analysis/activity_rules.py)\<close>

text \<open>
  \<^verbatim>\<open>series_by_joint\<close> is a dictionary from joint names to lists of \<open>(t, angle)\<close> samples
  with finite entries; it is an association list here because two assessors enumerate
  its keys. A snapshot is a timestamp with a keypoint map; a keypoint carries \<open>x\<close>, \<open>y\<close>
  and an optional \<open>conf\<close>. \<^verbatim>\<open>targets\<close> maps joint names to target angles. The feedback
  message of an assessment is not modelled.
\<close>

type_synonym series = "(real \<times> real) list"























subsection \<open>Squat\<close>


subsection \<open>Arm abduction\<close>





subsection \<open>Forward flexion\<close>


subsection \<open>Calf raise\<close>


subsection \<open>Jumping jack\<close>











subsection \<open>Dispatcher\<close>



subsection \<open>Test inputs for the assessors\<close>










section \<open>Template matcher (analysis/guide_match.py)\<close>

text \<open>
  The template files are the environment of the matcher. For an activity of
  \<^verbatim>\<open>TEMPLATE_RULES\<close> each of the two files is absent (no path, or not a file) or has a
  content. Reading the phase from the JSON file has three outcomes: it raises (the file
  is not valid JSON, or its phase is not a numeric array), the document has no
  \<^verbatim>\<open>"phase"\<close> entry, or it has a numeric phase array. The CSV file is its list of
  rows; of a row only the \<^verbatim>\<open>joint\<close> and \<^verbatim>\<open>value\<close> cells are read, each possibly missing,
  and a value cell either parses as a finite number or makes \<^verbatim>\<open>float\<close> raise.
\<close>

datatype py_error = JSONDecodeError | TypeError | ValueError











definition extract_scalar_window :: "series \<Rightarrow> real \<Rightarrow> real \<Rightarrow> series" where
  "extract_scalar_window s t0 t1 = [(t, v). (t, v) \<leftarrow> s, t0 \<le> t \<and> t \<le> t1]"










subsection \<open>Test environments for the matcher\<close>






section \<open>Properties of the scoring primitives and of the cycle detector\<close>

lemma fl_sub_Fin [simp]: "fl_sub (Fin x) (Fin y) = Fin (x - y)"
  by (simp add: fl_sub_def)

text \<open>
  Claim C5. \<^verbatim>\<open>score_band\<close> returns \<open>(0, Red)\<close> when the measurement is missing or
  not finite. For a finite measurement with deviation \<open>\<bar>measured - target\<bar>\<close> it returns
  \<open>(1, Green)\<close> up to 5 degrees, \<open>(1/2, Amber)\<close> above 5 and up to 10 degrees, and
  \<open>(0, Red)\<close> above 10 degrees. Hence the score never increases with the deviation, and
  the deviations 5, 10 and 10.01 give Green, Amber and Red.
\<close>

theorem score_band_spec:
  "score_band None tgt = (0, Red)
   \<and> (\<not> isfinite m \<longrightarrow> score_band (Some m) tgt = (0, Red))
   \<and> (\<bar>x1 - tgt\<bar> \<le> 5 \<longrightarrow> score_band (Some (Fin x1)) tgt = (1, Green))
   \<and> (5 < \<bar>x2 - tgt\<bar> \<and> \<bar>x2 - tgt\<bar> \<le> 10 \<longrightarrow> score_band (Some (Fin x2)) tgt = (1 / 2, Amber))
   \<and> (10 < \<bar>x3 - tgt\<bar> \<longrightarrow> score_band (Some (Fin x3)) tgt = (0, Red))
   \<and> (\<bar>x - tgt\<bar> \<le> \<bar>y - tgt'\<bar> \<longrightarrow>
        fst (score_band (Some (Fin y)) tgt') \<le> fst (score_band (Some (Fin x)) tgt))
   \<and> (\<bar>x4 - tgt\<bar> = 5 \<longrightarrow> score_band (Some (Fin x4)) tgt = (1, Green))
   \<and> (\<bar>x5 - tgt\<bar> = 10 \<longrightarrow> score_band (Some (Fin x5)) tgt = (1 / 2, Amber))
   \<and> (\<bar>x6 - tgt\<bar> = 1001 / 100 \<longrightarrow> score_band (Some (Fin x6)) tgt = (0, Red))"
  by (cases m) (auto simp: score_band_def Let_def)

theorem score_band_spec_witness:
  "score_band None 175 = (0, Red)
   \<and> score_band (Some NaN) 175 = (0, Red)
   \<and> score_band (Some (Fin 178)) 175 = (1, Green)
   \<and> score_band (Some (Fin 168)) 175 = (1 / 2, Amber)
   \<and> score_band (Some (Fin 150)) 175 = (0, Red)
   \<and> fst (score_band (Some (Fin 168)) 175) \<le> fst (score_band (Some (Fin 178)) 175)
   \<and> score_band (Some (Fin 180)) 175 = (1, Green)
   \<and> score_band (Some (Fin 185)) 175 = (1 / 2, Amber)
   \<and> score_band (Some (Fin (18501 / 100))) 175 = (0, Red)"
  using score_band_spec [of 175 NaN 178 168 150 178 168 175 180 185 "18501 / 100"]
  by simp

lemma near_last_t [simp]: "is_near_baseline (d\<lparr>last_t := x\<rparr>) a = is_near_baseline d a"
  by (simp add: is_near_baseline_def split: option.split)

lemma excursion_last_t [simp]: "excursion (d\<lparr>last_t := x\<rparr>) a = excursion d a"
  by (simp add: excursion_def split: option.split)

lemma ensure_last_t [simp]:
  "ensure_baseline (d\<lparr>last_t := x\<rparr>) a = (ensure_baseline d a)\<lparr>last_t := x\<rparr>"
  by (simp add: ensure_baseline_def split: option.split)

lemma ensure_fields [simp]:
  "p (ensure_baseline d a) = p d"
  "state (ensure_baseline d a) = state d"
  "t_cycle_start (ensure_baseline d a) = t_cycle_start d"
  "t_above_start (ensure_baseline d a) = t_above_start d"
  "last_t (ensure_baseline d a) = last_t d"
  by (simp_all add: ensure_baseline_def split: option.split)

lemma timeout_last_t [simp]:
  "safety_timeout t (d\<lparr>last_t := x\<rparr>) = (safety_timeout t d)\<lparr>last_t := x\<rparr>"
  by (simp add: safety_timeout_def split: option.split)

lemma transition_last_t:
  "transition t a (d\<lparr>last_t := x\<rparr>) =
     (case transition t a d of (d', e) \<Rightarrow> (d'\<lparr>last_t := x\<rparr>, e))"
  by (cases "state d") (simp_all add: transition_def Let_def split: option.split)

lemma update_last_t:
  "update t a (d\<lparr>last_t := x\<rparr>) =
     (case update t a d of
        (d', None) \<Rightarrow> (d', None)
      | (d', Some e) \<Rightarrow> (d'\<lparr>last_t := x\<rparr>, Some e))"
proof (cases a)
  case None
  then show ?thesis by (simp add: update_def)
next
  case (Some v)
  show ?thesis
  proof (cases "v = NaN")
    case True
    with Some show ?thesis by (simp add: update_def)
  next
    case False
    show ?thesis
    proof (cases "baseline d")
      case None
      have sw: "d\<lparr>last_t := x, baseline := Some v\<rparr> = d\<lparr>baseline := Some v, last_t := x\<rparr>"
        by simp
      obtain d2 e where tr: "transition t v (d\<lparr>baseline := Some v\<rparr>) = (d2, e)"
        by (cases "transition t v (d\<lparr>baseline := Some v\<rparr>)")
      show ?thesis
        using Some False None tr
        by (cases e) (simp_all add: update_def Let_def sw transition_last_t)
    next
      case (Some b)
      obtain d2 e where tr: "transition t v d = (d2, e)"
        by (cases "transition t v d")
      show ?thesis
        using \<open>a = Some v\<close> False Some tr
        by (cases e) (simp_all add: update_def Let_def transition_last_t)
    qed
  qed
qed

lemma run_last_t:
  "snd (run (d\<lparr>last_t := x\<rparr>) xs) = snd (run d xs) \<and>
   (\<exists>l. fst (run (d\<lparr>last_t := x\<rparr>) xs) = (fst (run d xs))\<lparr>last_t := l\<rparr>)"
proof (induction xs arbitrary: d x)
  case Nil
  show ?case by (auto intro: exI [of _ x])
next
  case (Cons s xs)
  obtain t a where s: "s = (t, a)" by (cases s)
  obtain d' e where u: "update t a d = (d', e)" by (cases "update t a d")
  show ?case
  proof (cases e)
    case None
    with u have "update t a (d\<lparr>last_t := x\<rparr>) = (d', None)"
      by (simp add: update_last_t)
    with u None s show ?thesis
      by (auto simp: split_beta intro: exI [of _ "last_t (fst (run d' xs))"])
  next
    case (Some ev)
    with u have u': "update t a (d\<lparr>last_t := x\<rparr>) = (d'\<lparr>last_t := x\<rparr>, Some ev)"
      by (simp add: update_last_t)
    from Cons.IH [where d = "d'" and x = x] obtain l where
      "snd (run (d'\<lparr>last_t := x\<rparr>) xs) = snd (run d' xs)"
      "fst (run (d'\<lparr>last_t := x\<rparr>) xs) = (fst (run d' xs))\<lparr>last_t := l\<rparr>"
      by blast
    with u u' Some s show ?thesis
      by (auto simp: split_beta)
  qed
qed


text \<open>
  Claim C4. A call \<^verbatim>\<open>update(t, a)\<close> with \<open>a\<close> \<^verbatim>\<open>None\<close> or NaN returns no event and
  changes only the last-seen timestamp: state, baseline, cycle start and above start are
  kept. Whatever samples follow, the detector emits the same events and ends in the same
  state (up to the last-seen timestamp) as if the invalid sample had not been fed.
\<close>

theorem update_skips_invalid_sample:
  assumes "a = None \<or> a = Some NaN"
  shows "update t a d = (d\<lparr>last_t := Some t\<rparr>, None)
       \<and> snd (run (fst (update t a d)) xs) = snd (run d xs)
       \<and> (\<exists>l. fst (run (fst (update t a d)) xs) = (fst (run d xs))\<lparr>last_t := l\<rparr>)"
proof -
  from assms have u: "update t a d = (d\<lparr>last_t := Some t\<rparr>, None)"
    by (auto simp: update_def)
  with run_last_t [where d = d and x = "Some t" and xs = xs] show ?thesis by simp
qed

theorem update_skips_invalid_sample_witness:
  "(Some NaN = (None :: fl option) \<or> Some NaN = Some NaN)
   \<and> update 1 (Some NaN) (reset default_params) = ((reset default_params)\<lparr>last_t := Some 1\<rparr>, None)
   \<and> snd (run (fst (update 1 (Some NaN) (reset default_params))) [(2, Some (Fin 0))])
       = snd (run (reset default_params) [(2, Some (Fin 0))])"
proof -
  have h: "Some NaN = (None :: fl option) \<or> Some NaN = Some NaN" by simp
  from update_skips_invalid_sample [OF h, of 1 "reset default_params" "[(2, Some (Fin 0))]"] h
  show ?thesis by blast
qed




lemmas detector_defs = update_def transition_def safety_timeout_def excursion_def fl_ge_def
  is_near_baseline_def ensure_baseline_def Let_def default_params_def









text \<open>
  In GOING_UP a sample below the threshold and within the baseline band aborts the
  attempt: back to AT_BASELINE, no event, cycle start and above start cleared.
\<close>

lemma going_up_abort:
  assumes "state d = GOING_UP" "baseline d = Some b" "v \<noteq> NaN"
    "\<not> fl_ge (excursion d v) (Fin (up_thresh (p d)))" "is_near_baseline d v"
  shows "update t (Some v) d =
     (d\<lparr>state := AT_BASELINE, t_cycle_start := None, t_above_start := None, last_t := Some t\<rparr>, None)"
  using assms by (simp add: update_def transition_def safety_timeout_def Let_def)




text \<open>
  Claim C2 at a trace with a dip. The excursion is above \<open>up_thresh\<close> at 0.10 s and 0.12 s,
  falls to 9.4 degrees (below \<open>up_thresh\<close>, outside the baseline band) at 0.16 s and is above
  again at 0.22 s. The dip does not restart the hold timer started at 0.12 s, so the
  detector enters ABOVE at 0.22 s although the excursion never stayed above the threshold
  for \<open>peak_hold = 0.08\<close> seconds.
\<close>

theorem going_up_hold_survives_dip:
  "state (fst (run (reset default_params)
        [(0, Some (Fin 0)), (10 / 100, Some (Fin 30)), (12 / 100, Some (Fin 30))])) = GOING_UP
   \<and> t_above_start (fst (run (reset default_params)
        [(0, Some (Fin 0)), (10 / 100, Some (Fin 30)), (12 / 100, Some (Fin 30))])) = Some (12 / 100)
   \<and> fl_lt (excursion (fst (run (reset default_params)
        [(0, Some (Fin 0)), (10 / 100, Some (Fin 30)), (12 / 100, Some (Fin 30))])) (Fin 10))
        (Fin (up_thresh default_params))
   \<and> state (fst (run (reset default_params)
        [(0, Some (Fin 0)), (10 / 100, Some (Fin 30)), (12 / 100, Some (Fin 30)),
         (16 / 100, Some (Fin 10))])) = GOING_UP
   \<and> state (fst (run (reset default_params)
        [(0, Some (Fin 0)), (10 / 100, Some (Fin 30)), (12 / 100, Some (Fin 30)),
         (16 / 100, Some (Fin 10)), (22 / 100, Some (Fin 30))])) = ABOVE"
  by (simp add: detector_defs reset_def)


section \<open>Properties of the gait tracker\<close>

lemma step_time_snoc:
  "step_time (ev @ [e]) = (if ev = [] then None else Some (fst e - fst (last ev)))"
  by (cases ev rule: rev_cases) (simp_all add: step_time_def nth_append)

lemma detect_side_sep_ok:
  "sep_ok sep ev \<Longrightarrow> sep_ok sep (detect_side sep ts ys ev)"
  by (auto simp: detect_side_def Let_def sep_ok_def step_time_snoc)

lemma recompute_fields [simp]:
  "events_L (recompute_metrics tr) = events_L tr"
  "events_R (recompute_metrics tr) = events_R tr"
  "min_event_separation_s (recompute_metrics tr) = min_event_separation_s tr"
  by (simp_all add: recompute_metrics_def Let_def)

lemma recompute_idem: "recompute_metrics (recompute_metrics tr) = recompute_metrics tr"
  by (simp add: recompute_metrics_def Let_def)

lemma gait_inv_init: "gait_inv sep (GaitTracker_init mh sep)"
  by (simp add: gait_inv_def GaitTracker_init_def sep_ok_def step_time_def recompute_metrics_def)

lemma gait_inv_update:
  assumes "gait_inv sep tr"
  shows "gait_inv sep (gait_update t l r h tr)"
  using assms
  by (simp add: gait_inv_def gait_update_def recompute_idem detect_events_def Let_def
      detect_side_sep_ok)

lemma gait_inv_run: "gait_inv sep tr \<Longrightarrow> gait_inv sep (gait_run tr xs)"
  by (induction tr xs rule: gait_run.induct) (simp_all add: gait_inv_update)

lemma cadence_bound:
  assumes "0 < sep" and "\<forall>v \<in> set sts. sep \<le> v" and "sts \<noteq> []"
  shows "60 / np_mean sts \<le> 60 / sep"
proof -
  have "sum_list (map (\<lambda>_. sep) sts) \<le> sum_list sts"
    using assms(2) by (induction sts) auto
  then have "sep * real (length sts) \<le> sum_list sts"
    by (simp add: sum_list_triv mult.commute)
  moreover have "0 < real (length sts)" using assms(3) by simp
  ultimately have "sep \<le> np_mean sts"
    by (simp add: np_mean_def pos_le_divide_eq)
  with assms(1) show ?thesis by (simp add: frac_le)
qed

lemma gait_inv_metrics:
  assumes "gait_inv sep tr"
  shows "(\<forall>s. m_step_time_L (metrics tr) = Some s \<longrightarrow> sep \<le> s)
       \<and> (\<forall>s. m_step_time_R (metrics tr) = Some s \<longrightarrow> sep \<le> s)
       \<and> (0 < sep \<longrightarrow> m_cadence_spm (metrics tr) \<noteq> 0 \<longrightarrow> m_cadence_spm (metrics tr) \<le> 60 / sep)
       \<and> (\<forall>v. m_symmetry_index (metrics tr) = Some v \<longrightarrow>
            (\<exists>a b. m_step_time_L (metrics tr) = Some a \<and> m_step_time_R (metrics tr) = Some b
                \<and> 0 < a \<and> 0 < b))"
proof -
  let ?L = "step_time (events_L tr)" and ?R = "step_time (events_R tr)"
  let ?sts = "concat (map (\<lambda>s. case s of None \<Rightarrow> [] | Some v \<Rightarrow> if v > 0 then [v] else []) [?L, ?R])"
  from assms have okL: "sep_ok sep (events_L tr)" and okR: "sep_ok sep (events_R tr)"
    and rfix: "recompute_metrics tr = tr"
    by (simp_all add: gait_inv_def)
  have stL: "step_time_L tr = ?L" and stR: "step_time_R tr = ?R"
    and cad: "cadence_spm tr = (if ?sts \<noteq> [] then 60 / np_mean ?sts else 0)"
    and sym: "si tr = (case (?L, ?R) of
                   (Some l, Some r) \<Rightarrow>
                     if l \<noteq> 0 \<and> r \<noteq> 0 \<and> l > 0 \<and> r > 0
                     then Some (100 * \<bar>l - r\<bar> / (5 / 10 * (l + r) + 1 / 1000000))
                     else None
                 | _ \<Rightarrow> None)"
    by (subst rfix [symmetric], simp add: recompute_metrics_def Let_def)+
  have ge: "\<forall>v \<in> set ?sts. sep \<le> v"
    using okL okR by (auto simp: sep_ok_def split: option.splits if_splits)
  have c: "0 < sep \<longrightarrow> cadence_spm tr \<noteq> 0 \<longrightarrow> cadence_spm tr \<le> 60 / sep"
    using cadence_bound [OF _ ge] unfolding cad by auto
  have s: "\<forall>v. si tr = Some v \<longrightarrow> (\<exists>a b. ?L = Some a \<and> ?R = Some b \<and> 0 < a \<and> 0 < b)"
    unfolding sym by (auto split: option.splits if_splits)
  show ?thesis
    using okL okR c s by (simp add: metrics_def stL stR sep_ok_def)
qed

text \<open>
  Claim C10. After any sequence of \<^verbatim>\<open>update\<close> calls on a new tracker, a step time
  reported by \<^verbatim>\<open>metrics()\<close> is at least \<open>min_event_separation_s\<close>; for a positive
  separation a nonzero cadence is at most \<open>60 / min_event_separation_s\<close>; and a symmetry
  index is reported only when both sides have a positive step time.
\<close>

theorem gait_metrics_respect_refractory:
  "(\<forall>s. m_step_time_L (metrics (gait_run (GaitTracker_init mh sep) xs)) = Some s \<longrightarrow> sep \<le> s)
   \<and> (\<forall>s. m_step_time_R (metrics (gait_run (GaitTracker_init mh sep) xs)) = Some s \<longrightarrow> sep \<le> s)
   \<and> (0 < sep \<longrightarrow> m_cadence_spm (metrics (gait_run (GaitTracker_init mh sep) xs)) \<noteq> 0 \<longrightarrow>
         m_cadence_spm (metrics (gait_run (GaitTracker_init mh sep) xs)) \<le> 60 / sep)
   \<and> (\<forall>v. m_symmetry_index (metrics (gait_run (GaitTracker_init mh sep) xs)) = Some v \<longrightarrow>
         (\<exists>a b. m_step_time_L (metrics (gait_run (GaitTracker_init mh sep) xs)) = Some a
              \<and> m_step_time_R (metrics (gait_run (GaitTracker_init mh sep) xs)) = Some b
              \<and> 0 < a \<and> 0 < b))"
  by (rule gait_inv_metrics [OF gait_inv_run [OF gait_inv_init]])

lemma walk_metrics: "metrics (gait_run (GaitTracker_init 300 (1 / 4)) walk) =
   \<lparr> m_cadence_spm = 60, m_step_time_L = Some 1, m_step_time_R = Some 1, m_symmetry_index = Some 0 \<rparr>"
  by (simp add: walk_def metrics_def gait_update_def detect_events_def detect_side_def
      recompute_metrics_def step_time_def deque_append_def GaitTracker_init_def or_nan_def
      np_mean_def Let_def)

theorem gait_metrics_respect_refractory_witness:
  "m_step_time_L (metrics (gait_run (GaitTracker_init 300 (1 / 4)) walk)) = Some 1
   \<and> m_step_time_R (metrics (gait_run (GaitTracker_init 300 (1 / 4)) walk)) = Some 1
   \<and> (1 / 4 :: real) \<le> 1 \<and> (0 :: real) < 1 / 4
   \<and> m_cadence_spm (metrics (gait_run (GaitTracker_init 300 (1 / 4)) walk)) \<noteq> 0
   \<and> m_cadence_spm (metrics (gait_run (GaitTracker_init 300 (1 / 4)) walk)) \<le> 60 / (1 / 4)
   \<and> m_symmetry_index (metrics (gait_run (GaitTracker_init 300 (1 / 4)) walk)) = Some 0"
  using gait_metrics_respect_refractory [of 300 "1 / 4" walk]
  by (simp add: walk_metrics)


section \<open>Properties of the activity rule engine\<close>
























section \<open>Properties of the template matcher\<close>
















end
